theory Spec2Isabelle
  imports Main "HOL-Library.Log_Nat"
begin

section \<open>The contract lifecycle of the marketplace backend\<close>

text \<open>
  A shallow embedding of \<^verbatim>\<open>backend/src/controllers/contractController.js\<close>: the
  handlers \<^verbatim>\<open>requestContract\<close>, \<^verbatim>\<open>acceptContract\<close>, \<^verbatim>\<open>rejectContract\<close>,
  \<^verbatim>\<open>completeContract\<close> and \<^verbatim>\<open>cancelContract\<close> of the lifecycle, with
  \<^verbatim>\<open>createListing\<close> and the \<^verbatim>\<open>authenticate\<close> middleware that runs before them. Each
  handler reads the request
  (\<^verbatim>\<open>req.params.id\<close>, \<^verbatim>\<open>req.body\<close>, \<^verbatim>\<open>req.user\<close>), talks to the store through
  the Prisma client one awaited call after the other, and answers with a JSON envelope.
  The store is an explicit state that every handler takes and returns; the answer is a
  sum, \<open>Inl\<close> for a failure and \<open>Inr\<close> for the \<^verbatim>\<open>data\<close> of a success.
\<close>

subsection \<open>Requests\<close>

type_synonym ident = string

text \<open>\<^verbatim>\<open>req.user\<close>, as the authentication middleware leaves it.\<close>

record user =
  u_id :: ident
  u_role :: string

text \<open>
  The fields of \<^verbatim>\<open>req.body\<close> that the handlers destructure. A field that is missing
  (\<^verbatim>\<open>undefined\<close>) or \<^verbatim>\<open>null\<close> is \<open>None\<close>; a field that is present holds a
  string.
\<close>

record body =
  message :: "string option"
  terms :: "string option"
  requestId :: "string option"
  reason :: "string option"
  deliveryProof :: "string option"

record req =
  params_id :: ident
  body :: body
  user :: user

text \<open>
  JavaScript truthiness of an optional string: \<^verbatim>\<open>undefined\<close>, \<^verbatim>\<open>null\<close> and the
  empty string are falsy.
\<close>

definition truthy :: "string option \<Rightarrow> bool" where
  "truthy v = (case v of None \<Rightarrow> False | Some s \<Rightarrow> s \<noteq> [])"

text \<open>\<^verbatim>\<open>a || b\<close> with both sides optional (\<^verbatim>\<open>terms || message\<close>).\<close>

definition js_or :: "string option \<Rightarrow> string option \<Rightarrow> string option" where
  "js_or a b = (if truthy a then a else b)"

text \<open>\<^verbatim>\<open>a || b\<close> with a string on the right (\<^verbatim>\<open>requestId || id\<close>, \<^verbatim>\<open>contract.terms || ''\<close>).\<close>

definition or_else :: "string option \<Rightarrow> string \<Rightarrow> string" where
  "or_else a b = (case a of None \<Rightarrow> b | Some s \<Rightarrow> if s \<noteq> [] then s else b)"

subsection \<open>Numbers\<close>

text \<open>
  Modelled from the spec: the types of the numeric columns (\<^verbatim>\<open>quantity\<close>,
  \<^verbatim>\<open>expectedPrice\<close>, \<^verbatim>\<open>totalAmount\<close>), which the Prisma schema declares and which
  is not among the sources. The spec says that quantity times price uses floating
  arithmetic in the source, and \<^verbatim>\<open>createListing\<close> stores \<^verbatim>\<open>parseFloat\<close> of its
  inputs: the columns hold JavaScript numbers, that is IEEE-754 doubles.

  \<open>Finite s q\<close> is the finite number of sign \<open>s\<close> (true for negative) and magnitude
  \<open>q \<ge> 0\<close>, zero having a sign as well; a stored number has a magnitude that a double
  can hold.
\<close>

datatype number = NaN | Infinity bool | Finite bool rat

text \<open>The power of two \<open>2\<^sup>k\<close> for an integer \<open>k\<close>.\<close>

definition pow2 :: "int \<Rightarrow> rat" where
  "pow2 k = (if 0 \<le> k then 2 ^ nat k else 1 / 2 ^ nat (- k))"

text \<open>The exponent \<open>e\<close> of a positive rational \<open>q\<close>: \<open>2\<^sup>e \<le> q < 2\<^sup>e\<^sup>+\<^sup>1\<close>.\<close>

definition floor_log2 :: "rat \<Rightarrow> int" where
  "floor_log2 q = (if 1 \<le> q then bitlen \<lfloor>q\<rfloor> - 1 else - bitlen (\<lceil>1 / q\<rceil> - 1))"

text \<open>The nearest integer, the even one of the two at a tie.\<close>

definition round_half_even :: "rat \<Rightarrow> int" where
  "round_half_even x =
     (let f = \<lfloor>x\<rfloor>; r = x - of_int f
      in if r < 1 / 2 then f else if 1 / 2 < r then f + 1 else if even f then f else f + 1)"

text \<open>
  The double nearest to a magnitude \<open>q\<close>, ties to even: the significand has 53 bits,
  so the last place of \<open>q\<close> is \<open>2\<^sup>e\<^sup>-\<^sup>5\<^sup>2\<close>, and not below \<open>2\<^sup>-\<^sup>1\<^sup>0\<^sup>7\<^sup>4\<close> (subnormal
  numbers); a result of \<open>2\<^sup>1\<^sup>0\<^sup>2\<^sup>4\<close> or more is infinite.
\<close>

definition round_double :: "bool \<Rightarrow> rat \<Rightarrow> number" where
  "round_double s q =
     (if q \<le> 0 then Finite s 0
      else let u = max (floor_log2 q - 52) (- 1074);
               v = of_int (round_half_even (q / pow2 u)) * pow2 u
           in if 2 ^ 1024 \<le> v then Infinity s else Finite s v)"

text \<open>The product \<^verbatim>\<open>a * b\<close> of two numbers.\<close>

fun js_times :: "number \<Rightarrow> number \<Rightarrow> number" where
  "js_times NaN _ = NaN"
| "js_times _ NaN = NaN"
| "js_times (Infinity s) (Infinity t) = Infinity (s \<noteq> t)"
| "js_times (Infinity s) (Finite t q) = (if q = 0 then NaN else Infinity (s \<noteq> t))"
| "js_times (Finite s p) (Infinity t) = (if p = 0 then NaN else Infinity (s \<noteq> t))"
| "js_times (Finite s p) (Finite t q) = round_double (s \<noteq> t) (p * q)"

subsection \<open>The store\<close>

text \<open>
  The rows of the three tables. The \<^verbatim>\<open>id\<close> column is the key of the table, so a row
  does not repeat it. The rows are generic in the type \<open>'n\<close> of their numbers
  (\<^verbatim>\<open>quantity\<close>, \<^verbatim>\<open>expectedPrice\<close>, \<^verbatim>\<open>totalAmount\<close>, \<^verbatim>\<open>amount\<close>): the handlers
  copy them, and \<^verbatim>\<open>requestContract\<close>, the only one to compute with them, has them as
  \<open>number\<close>. Instants are natural numbers. The columns of a listing that no
  lifecycle handler reads (description, harvest date, images, location) are left out.
\<close>

record 'n listing =
  l_farmerId :: ident
  l_cropType :: string
  l_quantity :: 'n
  l_unit :: string
  l_expectedPrice :: 'n
  l_status :: string

record 'n contract =
  c_listingId :: ident
  c_farmerId :: ident
  c_buyerId :: ident
  c_cropType :: string
  c_quantity :: 'n
  c_agreedPrice :: 'n
  c_totalAmount :: 'n
  c_status :: string
  c_terms :: "string option"
  c_completedAt :: "nat option"

record 'n transaction =
  t_userId :: ident
  t_type :: string
  t_category :: string
  t_amount :: 'n
  t_description :: string
  t_referenceId :: "ident option"
  t_referenceType :: "string option"
  t_transactionDate :: nat

text \<open>
  The store: listings and contracts by key, the ledger in insertion order (no handler
  here reads the key of a ledger row).
\<close>

record 'n db =
  listings :: "ident \<rightharpoonup> 'n listing"
  contracts :: "ident \<rightharpoonup> 'n contract"
  transactions :: "'n transaction list"

text \<open>
  A failure is either an envelope the handler writes itself, with its HTTP status and
  \<^verbatim>\<open>error.code\<close>, or an exception caught by the handler's \<^verbatim>\<open>try\<close> and passed to
  \<^verbatim>\<open>next(error)\<close>.
\<close>

datatype failure = Failure nat string | Forwarded

text \<open>
  Every awaited call to the store may reject. The call sites of the handlers are named,
  and a handler takes a predicate telling which of its calls reject in this run; a call
  that rejects leaves the store as it was.
\<close>

datatype store_call =
  UserFindUnique
  | ListingCreate | ListingFindUnique | ListingUpdate
  | ContractFindFirst | ContractCreate | ContractUpdate
  | IncomeCreate | ExpenseCreate

definition attempt :: "(store_call \<Rightarrow> bool) \<Rightarrow> store_call \<Rightarrow> 'a option \<Rightarrow> 'a option" where
  "attempt fault k result = (if fault k then None else result)"

text \<open>
  \<^verbatim>\<open>prisma.contractListing.create({ data })\<close>: the store chooses the key \<open>i\<close> of the
  new row; the call rejects when the key is taken.
\<close>

definition listing_create :: "ident \<Rightarrow> 'n listing \<Rightarrow> 'n db \<Rightarrow> 'n db option" where
  "listing_create i l d =
     (case listings d i of
        None \<Rightarrow> Some (d\<lparr>listings := (listings d)(i \<mapsto> l)\<rparr>)
      | Some _ \<Rightarrow> None)"

text \<open>\<^verbatim>\<open>prisma.contractListing.findUnique({ where: { id } })\<close>\<close>

definition listing_findUnique :: "ident \<Rightarrow> 'n db \<Rightarrow> 'n listing option" where
  "listing_findUnique i d = listings d i"

text \<open>
  \<^verbatim>\<open>prisma.contractListing.update({ where: { id }, data })\<close>: rejects when no row has
  the key.
\<close>

definition listing_update :: "ident \<Rightarrow> ('n listing \<Rightarrow> 'n listing) \<Rightarrow> 'n db \<Rightarrow> 'n db option" where
  "listing_update i f d =
     (case listings d i of
        None \<Rightarrow> None
      | Some l \<Rightarrow> Some (d\<lparr>listings := (listings d)(i \<mapsto> f l)\<rparr>))"

text \<open>
  \<^verbatim>\<open>prisma.contract.findFirst({ where: { id, ... } })\<close>: the row with the key, when it
  meets the other conditions of the filter.
\<close>

definition contract_findFirst :: "ident \<Rightarrow> ('n contract \<Rightarrow> bool) \<Rightarrow> 'n db \<Rightarrow> 'n contract option" where
  "contract_findFirst i p d =
     (case contracts d i of
        None \<Rightarrow> None
      | Some c \<Rightarrow> if p c then Some c else None)"

text \<open>
  \<^verbatim>\<open>prisma.contract.create({ data })\<close>: the store chooses the key \<open>i\<close> of the new row;
  the call rejects when the key is taken.
\<close>

definition contract_create :: "ident \<Rightarrow> 'n contract \<Rightarrow> 'n db \<Rightarrow> 'n db option" where
  "contract_create i c d =
     (case contracts d i of
        None \<Rightarrow> Some (d\<lparr>contracts := (contracts d)(i \<mapsto> c)\<rparr>)
      | Some _ \<Rightarrow> None)"

text \<open>
  \<^verbatim>\<open>prisma.contract.update({ where: { id }, data })\<close>: returns the updated row, rejects
  when no row has the key.
\<close>

definition contract_update ::
  "ident \<Rightarrow> ('n contract \<Rightarrow> 'n contract) \<Rightarrow> 'n db \<Rightarrow> ('n contract \<times> 'n db) option" where
  "contract_update i f d =
     (case contracts d i of
        None \<Rightarrow> None
      | Some c \<Rightarrow> Some (f c, d\<lparr>contracts := (contracts d)(i \<mapsto> f c)\<rparr>))"

text \<open>\<^verbatim>\<open>prisma.transaction.create({ data })\<close>\<close>

definition transaction_create :: "'n transaction \<Rightarrow> 'n db \<Rightarrow> 'n db option" where
  "transaction_create t d = Some (d\<lparr>transactions := transactions d @ [t]\<rparr>)"

subsection \<open>Accounts\<close>

text \<open>
  The users table, by key, with the two columns that decide what a caller may do. It is
  kept apart from the store above: no handler of the contract controller reads or
  writes it. The \<^verbatim>\<open>role\<close> of a row is written when the row is created
  (\<^verbatim>\<open>register\<close>, \<^verbatim>\<open>verifyOTP\<close>) and by no update; \<^verbatim>\<open>deleteAccount\<close> only sets
  \<^verbatim>\<open>isActive\<close> to false.
\<close>

record account =
  a_role :: string
  a_isActive :: bool

text \<open>
  \<^verbatim>\<open>authenticate\<close> (\<^verbatim>\<open>middleware/auth.js\<close>), from the verified token on: \<open>uid\<close> is
  the \<^verbatim>\<open>userId\<close> of the token. The middleware reads the user's row at every request
  and attaches it as \<^verbatim>\<open>req.user\<close>; its own \<^verbatim>\<open>catch\<close> answers 500.
\<close>

definition authenticate ::
  "(store_call \<Rightarrow> bool) \<Rightarrow> (ident \<rightharpoonup> account) \<Rightarrow> ident \<Rightarrow> failure + user" where
  "authenticate fault users uid =
     (case attempt fault UserFindUnique (Some (users uid)) of
        None \<Rightarrow> Inl (Failure 500 ''INTERNAL_ERROR'')
      | Some None \<Rightarrow> Inl (Failure 401 ''UNAUTHORIZED'')
      | Some (Some a) \<Rightarrow>
          if \<not> a_isActive a then Inl (Failure 403 ''FORBIDDEN'')
          else Inr \<lparr> u_id = uid, u_role = a_role a \<rparr>)"

text \<open>
  Every listing belongs to an account whose role is \<^verbatim>\<open>farmer\<close>: what
  \<^verbatim>\<open>createListing\<close> establishes and every handler keeps.
\<close>

definition owners_are_farmers :: "(ident \<rightharpoonup> account) \<Rightarrow> 'n db \<Rightarrow> bool" where
  "owners_are_farmers users d =
     (\<forall>i l. listings d i = Some l \<longrightarrow>
        map_option a_role (users (l_farmerId l)) = Some ''farmer'')"

subsection \<open>The handlers\<close>

text \<open>
  \<^verbatim>\<open>createListing\<close> (lines 165-234). The form holds the fields of the body that the
  lifecycle reads later, the numbers as \<^verbatim>\<open>parseFloat\<close> returned them; \<open>newId\<close> is
  the key the store gives the new listing.
\<close>

record 'n listing_form =
  f_cropType :: string
  f_quantity :: 'n
  f_unit :: string
  f_expectedPrice :: 'n

definition createListing ::
  "(store_call \<Rightarrow> bool) \<Rightarrow> ident \<Rightarrow> user \<Rightarrow> 'n listing_form \<Rightarrow> 'n db
     \<Rightarrow> (failure + ident \<times> 'n listing) \<times> 'n db" where
  "createListing fault newId caller form d =
     (if u_role caller \<noteq> ''farmer'' then (Inl (Failure 403 ''FORBIDDEN''), d)
      else
        let row = \<lparr> l_farmerId = u_id caller,
                    l_cropType = f_cropType form,
                    l_quantity = f_quantity form,
                    l_unit = f_unit form,
                    l_expectedPrice = f_expectedPrice form,
                    l_status = ''active'' \<rparr>
        in (case attempt fault ListingCreate (listing_create newId row d) of
              None \<Rightarrow> (Inl Forwarded, d)
            | Some d1 \<Rightarrow> (Inr (newId, row), d1)))"

text \<open>
  \<^verbatim>\<open>requestContract\<close> (lines 313-417). \<open>newId\<close> is the key the store gives the new
  contract. The success envelope carries the created contract.
\<close>

definition requestContract ::
  "(store_call \<Rightarrow> bool) \<Rightarrow> ident \<Rightarrow> req \<Rightarrow> number db
     \<Rightarrow> (failure + ident \<times> number contract) \<times> number db" where
  "requestContract fault newId r d =
     (if u_role (user r) \<noteq> ''buyer'' then (Inl (Failure 403 ''FORBIDDEN''), d)
      else
        (case attempt fault ListingFindUnique (Some (listing_findUnique (params_id r) d)) of
          None \<Rightarrow> (Inl Forwarded, d)
        | Some None \<Rightarrow> (Inl (Failure 404 ''NOT_FOUND''), d)
        | Some (Some listing) \<Rightarrow>
            if l_status listing \<noteq> ''active''
            then (Inl (Failure 400 ''LISTING_UNAVAILABLE''), d)
            else if l_farmerId listing = u_id (user r)
            then (Inl (Failure 400 ''INVALID_REQUEST''), d)
            else
              let row = \<lparr> c_listingId = params_id r,
                          c_farmerId = l_farmerId listing,
                          c_buyerId = u_id (user r),
                          c_cropType = l_cropType listing,
                          c_quantity = l_quantity listing,
                          c_agreedPrice = l_expectedPrice listing,
                          c_totalAmount =
                            js_times (l_quantity listing) (l_expectedPrice listing),
                          c_status = ''requested'',
                          c_terms = js_or (terms (body r)) (message (body r)),
                          c_completedAt = None \<rparr>
              in (case attempt fault ContractCreate (contract_create newId row d) of
                    None \<Rightarrow> (Inl Forwarded, d)
                  | Some d1 \<Rightarrow> (Inr (newId, row), d1))))"

text \<open>
  \<^verbatim>\<open>acceptContract\<close> (lines 422-489). The filter of the lookup is
  \<^verbatim>\<open>{ id: requestId || id, farmerId: req.user.id, status: 'requested' }\<close>, and both
  writes use the key of the row found.
\<close>

definition acceptContract ::
  "(store_call \<Rightarrow> bool) \<Rightarrow> req \<Rightarrow> 'n db \<Rightarrow> (failure + ident \<times> 'n contract) \<times> 'n db" where
  "acceptContract fault r d =
     (let cid = or_else (requestId (body r)) (params_id r) in
      case attempt fault ContractFindFirst
             (Some (contract_findFirst cid
                (\<lambda>c. c_farmerId c = u_id (user r) \<and> c_status c = ''requested'') d)) of
        None \<Rightarrow> (Inl Forwarded, d)
      | Some None \<Rightarrow> (Inl (Failure 404 ''NOT_FOUND''), d)
      | Some (Some contract) \<Rightarrow>
          (case attempt fault ContractUpdate
                  (contract_update cid (\<lambda>c. c\<lparr>c_status := ''accepted''\<rparr>) d) of
             None \<Rightarrow> (Inl Forwarded, d)
           | Some (updatedContract, d1) \<Rightarrow>
               (case attempt fault ListingUpdate
                       (listing_update (c_listingId contract)
                          (\<lambda>l. l\<lparr>l_status := ''contracted''\<rparr>) d1) of
                  None \<Rightarrow> (Inl Forwarded, d1)
                | Some d2 \<Rightarrow> (Inr (cid, updatedContract), d2))))"

text \<open>
  The new value of \<^verbatim>\<open>terms\<close> in reject, complete and cancel (lines 528, 590, 694):
  \<^verbatim>\<open>note ? `${contract.terms || ''}\nLabel: ${note}` : contract.terms\<close>.
\<close>

definition with_note :: "string \<Rightarrow> string option \<Rightarrow> string option \<Rightarrow> string option" where
  "with_note label note old =
     (if truthy note
      then Some (or_else old [] @ CHR 0x0A # label @ (case note of Some n \<Rightarrow> n | None \<Rightarrow> []))
      else old)"

text \<open>
  \<^verbatim>\<open>rejectContract\<close> (lines 494-550). The success envelope has \<^verbatim>\<open>data: null\<close>.
\<close>

definition rejectContract ::
  "(store_call \<Rightarrow> bool) \<Rightarrow> req \<Rightarrow> 'n db \<Rightarrow> (failure + unit) \<times> 'n db" where
  "rejectContract fault r d =
     (let cid = params_id r in
      case attempt fault ContractFindFirst
             (Some (contract_findFirst cid
                (\<lambda>c. (c_farmerId c = u_id (user r) \<or> c_buyerId c = u_id (user r))
                      \<and> c_status c \<in> {''requested'', ''accepted''}) d)) of
        None \<Rightarrow> (Inl Forwarded, d)
      | Some None \<Rightarrow> (Inl (Failure 404 ''NOT_FOUND''), d)
      | Some (Some contract) \<Rightarrow>
          (case attempt fault ContractUpdate
                  (contract_update cid
                     (\<lambda>c. c\<lparr>c_status := ''cancelled'',
                            c_terms := with_note ''Rejection reason: '' (reason (body r))
                                         (c_terms contract)\<rparr>) d) of
             None \<Rightarrow> (Inl Forwarded, d)
           | Some (_, d1) \<Rightarrow>
               if c_status contract = ''accepted''
               then (case attempt fault ListingUpdate
                            (listing_update (c_listingId contract)
                               (\<lambda>l. l\<lparr>l_status := ''active''\<rparr>) d1) of
                       None \<Rightarrow> (Inl Forwarded, d1)
                     | Some d2 \<Rightarrow> (Inr (), d2))
               else (Inr (), d1)))"

text \<open>
  \<^verbatim>\<open>completeContract\<close> (lines 555-655). The handler evaluates \<^verbatim>\<open>new Date()\<close>
  three times, in the data of the contract update and of the two ledger inserts;
  \<open>clock k\<close> is the instant read for the call \<open>k\<close>.
\<close>

definition completeContract ::
  "(store_call \<Rightarrow> bool) \<Rightarrow> (store_call \<Rightarrow> nat) \<Rightarrow> req \<Rightarrow> 'n db
     \<Rightarrow> (failure + ident \<times> 'n contract) \<times> 'n db" where
  "completeContract fault clock r d =
     (let cid = params_id r in
      case attempt fault ContractFindFirst
             (Some (contract_findFirst cid
                (\<lambda>c. (c_farmerId c = u_id (user r) \<or> c_buyerId c = u_id (user r))
                      \<and> c_status c \<in> {''accepted'', ''in_progress''}) d)) of
        None \<Rightarrow> (Inl Forwarded, d)
      | Some None \<Rightarrow> (Inl (Failure 404 ''NOT_FOUND''), d)
      | Some (Some contract) \<Rightarrow>
          (case attempt fault ContractUpdate
                  (contract_update cid
                     (\<lambda>c. c\<lparr>c_status := ''completed'',
                            c_completedAt := Some (clock ContractUpdate),
                            c_terms := with_note ''Delivery proof: '' (deliveryProof (body r))
                                         (c_terms contract)\<rparr>) d) of
             None \<Rightarrow> (Inl Forwarded, d)
           | Some (updatedContract, d1) \<Rightarrow>
               (case attempt fault ListingUpdate
                       (listing_update (c_listingId contract)
                          (\<lambda>l. l\<lparr>l_status := ''completed''\<rparr>) d1) of
                  None \<Rightarrow> (Inl Forwarded, d1)
                | Some d2 \<Rightarrow>
                    (case attempt fault IncomeCreate
                            (transaction_create
                               \<lparr> t_userId = c_farmerId contract,
                                 t_type = ''income'',
                                 t_category = ''sale'',
                                 t_amount = c_totalAmount contract,
                                 t_description =
                                   ''Sale of '' @ c_cropType contract @ '' - Contract '' @ cid,
                                 t_referenceId = Some cid,
                                 t_referenceType = Some ''contract'',
                                 t_transactionDate = clock IncomeCreate \<rparr> d2) of
                       None \<Rightarrow> (Inl Forwarded, d2)
                     | Some d3 \<Rightarrow>
                         (case attempt fault ExpenseCreate
                                 (transaction_create
                                    \<lparr> t_userId = c_buyerId contract,
                                      t_type = ''expense'',
                                      t_category = ''purchase'',
                                      t_amount = c_totalAmount contract,
                                      t_description =
                                        ''Purchase of '' @ c_cropType contract
                                          @ '' - Contract '' @ cid,
                                      t_referenceId = Some cid,
                                      t_referenceType = Some ''contract'',
                                      t_transactionDate = clock ExpenseCreate \<rparr> d3) of
                            None \<Rightarrow> (Inl Forwarded, d3)
                          | Some d4 \<Rightarrow> (Inr (cid, updatedContract), d4))))))"

text \<open>
  \<^verbatim>\<open>cancelContract\<close> (lines 660-720). The listing is read again after the contract
  update and reverted only when it is \<^verbatim>\<open>contracted\<close>.
\<close>

definition cancelContract ::
  "(store_call \<Rightarrow> bool) \<Rightarrow> req \<Rightarrow> 'n db \<Rightarrow> (failure + unit) \<times> 'n db" where
  "cancelContract fault r d =
     (let cid = params_id r in
      case attempt fault ContractFindFirst
             (Some (contract_findFirst cid
                (\<lambda>c. (c_farmerId c = u_id (user r) \<or> c_buyerId c = u_id (user r))
                      \<and> c_status c \<noteq> ''completed'') d)) of
        None \<Rightarrow> (Inl Forwarded, d)
      | Some None \<Rightarrow> (Inl (Failure 404 ''NOT_FOUND''), d)
      | Some (Some contract) \<Rightarrow>
          (case attempt fault ContractUpdate
                  (contract_update cid
                     (\<lambda>c. c\<lparr>c_status := ''cancelled'',
                            c_terms := with_note ''Cancellation reason: '' (reason (body r))
                                         (c_terms contract)\<rparr>) d) of
             None \<Rightarrow> (Inl Forwarded, d)
           | Some (_, d1) \<Rightarrow>
               (case attempt fault ListingFindUnique
                       (Some (listing_findUnique (c_listingId contract) d1)) of
                  None \<Rightarrow> (Inl Forwarded, d1)
                | Some None \<Rightarrow> (Inr (), d1)
                | Some (Some listing) \<Rightarrow>
                    if l_status listing = ''contracted''
                    then (case attempt fault ListingUpdate
                                 (listing_update (c_listingId contract)
                                    (\<lambda>l. l\<lparr>l_status := ''active''\<rparr>) d1) of
                            None \<Rightarrow> (Inl Forwarded, d1)
                          | Some d2 \<Rightarrow> (Inr (), d2))
                    else (Inr (), d1))))"

subsection \<open>Observations and sample data\<close>

text \<open>The answer is an envelope written by the handler with the HTTP status \<open>st\<close>.\<close>

definition fails_with :: "nat \<Rightarrow> failure + 'a \<Rightarrow> bool" where
  "fails_with st a = (case a of Inl (Failure s _) \<Rightarrow> s = st | _ \<Rightarrow> False)"

text \<open>The columns a contract copies from its listing when it is created.\<close>

definition same_snapshot :: "'n contract \<Rightarrow> 'n contract \<Rightarrow> bool" where
  "same_snapshot c c' = (c_cropType c' = c_cropType c \<and> c_quantity c' = c_quantity c
      \<and> c_agreedPrice c' = c_agreedPrice c \<and> c_totalAmount c' = c_totalAmount c)"

text \<open>A run in which no call to the store rejects, and one in which exactly one does.\<close>

definition no_fault :: "store_call \<Rightarrow> bool" where
  "no_fault k = False"

definition only :: "store_call \<Rightarrow> store_call \<Rightarrow> bool" where
  "only k k' = (k' = k)"

definition no_body :: body where
  "no_body = \<lparr> message = None, terms = None, requestId = None, reason = None,
               deliveryProof = None \<rparr>"

definition farmer1 :: user where
  "farmer1 = \<lparr> u_id = ''farmer1'', u_role = ''farmer'' \<rparr>"

definition buyer1 :: user where
  "buyer1 = \<lparr> u_id = ''buyer1'', u_role = ''buyer'' \<rparr>"

definition buyer2 :: user where
  "buyer2 = \<lparr> u_id = ''buyer2'', u_role = ''buyer'' \<rparr>"

text \<open>The users table of the samples.\<close>

definition accounts0 :: "ident \<rightharpoonup> account" where
  "accounts0 = [''farmer1'' \<mapsto> \<lparr> a_role = ''farmer'', a_isActive = True \<rparr>,
                ''buyer1'' \<mapsto> \<lparr> a_role = ''buyer'', a_isActive = True \<rparr>,
                ''buyer2'' \<mapsto> \<lparr> a_role = ''buyer'', a_isActive = True \<rparr>]"

text \<open>
  Requests: with an empty body, with the same note as \<^verbatim>\<open>reason\<close> and
  \<^verbatim>\<open>deliveryProof\<close>, and with a \<^verbatim>\<open>requestId\<close> in the body.
\<close>

definition plain_req :: "ident \<Rightarrow> user \<Rightarrow> req" where
  "plain_req i u = \<lparr> params_id = i, body = no_body, user = u \<rparr>"

definition note_req :: "ident \<Rightarrow> user \<Rightarrow> string \<Rightarrow> req" where
  "note_req i u n = \<lparr> params_id = i,
      body = no_body\<lparr>reason := Some n, deliveryProof := Some n\<rparr>, user = u \<rparr>"


text \<open>The listing of the spec's example: 100 kg at 20 a kilogram.\<close>

definition wheat :: "number listing" where
  "wheat = \<lparr> l_farmerId = ''farmer1'', l_cropType = ''wheat'',
             l_quantity = Finite False 100, l_unit = ''kg'',
             l_expectedPrice = Finite False 20, l_status = ''active'' \<rparr>"


definition requested_by :: "ident \<Rightarrow> number contract" where
  "requested_by b = \<lparr> c_listingId = ''L1'', c_farmerId = ''farmer1'', c_buyerId = b,
       c_cropType = ''wheat'', c_quantity = Finite False 100,
       c_agreedPrice = Finite False 20, c_totalAmount = Finite False 2000,
       c_status = ''requested'', c_terms = None, c_completedAt = None \<rparr>"

definition accepted_c1 :: "number contract" where
  "accepted_c1 = (requested_by ''buyer1'')\<lparr>c_status := ''accepted'',
                    c_terms := Some ''pay on delivery''\<rparr>"

text \<open>
  Three stores: the listing alone; the listing contracted to the accepted contract
  \<open>c1\<close>; the active listing with two pending requests.
\<close>

definition market0 :: "number db" where
  "market0 = \<lparr> listings = [''L1'' \<mapsto> wheat], contracts = Map.empty, transactions = [] \<rparr>"

definition market1 :: "number db" where
  "market1 = \<lparr> listings = [''L1'' \<mapsto> wheat\<lparr>l_status := ''contracted''\<rparr>],
       contracts = [''c1'' \<mapsto> accepted_c1],
       transactions = [] \<rparr>"

definition market2 :: "number db" where
  "market2 = \<lparr> listings = [''L1'' \<mapsto> wheat],
       contracts = [''c1'' \<mapsto> requested_by ''buyer1'', ''c2'' \<mapsto> requested_by ''buyer2''],
       transactions = [] \<rparr>"


section \<open>Properties\<close>

lemmas store_defs = attempt_def listing_findUnique_def listing_update_def
  contract_findFirst_def contract_create_def contract_update_def transaction_create_def

lemmas row_simps = accepted_c1_def requested_by_def plain_req_def no_body_def
  farmer1_def buyer1_def buyer2_def or_else_def

lemma market0_L1: "listings market0 ''L1'' = Some wheat"
  by (simp add: market0_def)

lemma market1_c1: "contracts market1 ''c1'' = Some accepted_c1"
  by (simp add: market1_def)

lemma market1_L1: "listings market1 ''L1'' = Some (wheat\<lparr>l_status := ''contracted''\<rparr>)"
  by (simp add: market1_def)

lemma market2_c1: "contracts market2 ''c1'' = Some (requested_by ''buyer1'')"
  by (simp add: market2_def)

lemma market2_c2: "contracts market2 ''c2'' = Some (requested_by ''buyer2'')"
  by (simp add: market2_def)

lemma market2_L1: "listings market2 ''L1'' = Some wheat"
  by (simp add: market2_def)

subsection \<open>Products of numbers\<close>

text \<open>
  Whole numbers below \<open>2\<^sup>5\<^sup>3\<close> are doubles, and the product of two of them is exact
  when it is below \<open>2\<^sup>5\<^sup>3\<close> too.
\<close>

lemma round_half_even_of_int: "round_half_even (of_int m) = m"
  by (simp add: round_half_even_def)



lemma floor_log2_nat:
  assumes "0 < n" and "n < 2 ^ 53"
  shows "- 52 \<le> floor_log2 (of_nat n) - 52" and "floor_log2 (of_nat n) - 52 \<le> 0"
proof -
  have one: "(1::rat) \<le> of_nat n"
    using assms(1) by simp
  have fl: "floor_log2 (of_nat n) = bitlen (int n) - 1"
    using one by (simp add: floor_log2_def)
  have "int n < 2 ^ 53"
    using assms(2) by (metis of_nat_less_iff of_nat_numeral of_nat_power)
  then have up: "bitlen (int n) \<le> 53"
    by (simp add: bitlen_le_iff_power)
  have "1 \<le> int n"
    using assms(1) by simp
  then have lo: "1 \<le> bitlen (int n)"
    by (simp add: bitlen_ge_iff_power)
  from fl lo show "- 52 \<le> floor_log2 (of_nat n) - 52"
    by simp
  from fl up show "floor_log2 (of_nat n) - 52 \<le> 0"
    by simp
qed

lemma round_double_nat:
  assumes "n < 2 ^ 53"
  shows "round_double s (of_nat n) = Finite s (of_nat n)"
proof (cases "n = 0")
  case True
  then show ?thesis
    by (simp add: round_double_def)
next
  case False
  then have pos: "0 < n"
    by simp
  define k where "k = nat (- (floor_log2 (of_nat n) - 52))"
  from floor_log2_nat [OF pos assms]
  have u: "max (floor_log2 (of_nat n) - 52) (- 1074) = - int k"
    by (simp add: k_def)
  have p: "pow2 (- int k) = 1 / 2 ^ k"
    by (auto simp add: pow2_def)
  have scaled: "(of_nat n :: rat) / pow2 (- int k) = of_int (int n * 2 ^ k)"
    by (simp add: p)
  have unscaled: "(of_int (int n * 2 ^ k) :: rat) * pow2 (- int k) = of_nat n"
    by (simp add: p)
  have small: "\<not> (2 ^ 1024 \<le> (of_nat n :: rat))"
  proof -
    have "n < 2 ^ 1024"
      using assms by (rule less_trans) simp
    then have "(of_nat n :: rat) < 2 ^ 1024"
      by (metis of_nat_less_iff of_nat_numeral of_nat_power)
    then show ?thesis
      by simp
  qed
  from pos have "\<not> ((of_nat n :: rat) \<le> 0)"
    by simp
  then show ?thesis
    unfolding round_double_def Let_def u scaled round_half_even_of_int unscaled
    using small by simp
qed


lemma round_double_2000: "round_double False 2000 = Finite False 2000"
  using round_double_nat [of 2000 False] by simp



subsection \<open>What each handler does, by the outcome of its lookup\<close>

lemma acceptContract_found:
  assumes "contracts d (or_else (requestId (body r)) (params_id r)) = Some c"
    and "c_farmerId c = u_id (user r)" and "c_status c = ''requested''"
  shows "acceptContract fault r d =
    (let cid = or_else (requestId (body r)) (params_id r);
         c' = c\<lparr>c_status := ''accepted''\<rparr>;
         d1 = d\<lparr>contracts := (contracts d)(cid \<mapsto> c')\<rparr>
     in if fault ContractFindFirst \<or> fault ContractUpdate then (Inl Forwarded, d)
        else case listings d (c_listingId c) of
               None \<Rightarrow> (Inl Forwarded, d1)
             | Some l \<Rightarrow>
                 if fault ListingUpdate then (Inl Forwarded, d1)
                 else (Inr (cid, c'),
                       d1\<lparr>listings := (listings d)(c_listingId c \<mapsto> l\<lparr>l_status := ''contracted''\<rparr>)\<rparr>))"
  using assms by (simp add: acceptContract_def store_defs Let_def split: option.splits)

lemma acceptContract_no_match:
  assumes "\<forall>c. contracts d (or_else (requestId (body r)) (params_id r)) = Some c
             \<longrightarrow> \<not> (c_farmerId c = u_id (user r) \<and> c_status c = ''requested'')"
  shows "acceptContract fault r d =
           (Inl (if fault ContractFindFirst then Forwarded else Failure 404 ''NOT_FOUND''), d)"
  using assms by (auto simp add: acceptContract_def store_defs Let_def split: option.splits)

lemma completeContract_found:
  assumes "contracts d (params_id r) = Some c"
    and "c_farmerId c = u_id (user r) \<or> c_buyerId c = u_id (user r)"
    and "c_status c \<in> {''accepted'', ''in_progress''}"
  shows "completeContract fault clock r d =
    (let cid = params_id r;
         c' = c\<lparr>c_status := ''completed'', c_completedAt := Some (clock ContractUpdate),
                c_terms := with_note ''Delivery proof: '' (deliveryProof (body r)) (c_terms c)\<rparr>;
         d1 = d\<lparr>contracts := (contracts d)(cid \<mapsto> c')\<rparr>;
         inc = \<lparr> t_userId = c_farmerId c, t_type = ''income'', t_category = ''sale'',
                 t_amount = c_totalAmount c,
                 t_description = ''Sale of '' @ c_cropType c @ '' - Contract '' @ cid,
                 t_referenceId = Some cid, t_referenceType = Some ''contract'',
                 t_transactionDate = clock IncomeCreate \<rparr>;
         exp = \<lparr> t_userId = c_buyerId c, t_type = ''expense'', t_category = ''purchase'',
                 t_amount = c_totalAmount c,
                 t_description = ''Purchase of '' @ c_cropType c @ '' - Contract '' @ cid,
                 t_referenceId = Some cid, t_referenceType = Some ''contract'',
                 t_transactionDate = clock ExpenseCreate \<rparr>
     in if fault ContractFindFirst \<or> fault ContractUpdate then (Inl Forwarded, d)
        else case listings d (c_listingId c) of
               None \<Rightarrow> (Inl Forwarded, d1)
             | Some l \<Rightarrow>
                 let d2 = d1\<lparr>listings := (listings d)(c_listingId c \<mapsto> l\<lparr>l_status := ''completed''\<rparr>)\<rparr>
                 in if fault ListingUpdate then (Inl Forwarded, d1)
                    else if fault IncomeCreate then (Inl Forwarded, d2)
                    else if fault ExpenseCreate
                      then (Inl Forwarded, d2\<lparr>transactions := transactions d @ [inc]\<rparr>)
                    else (Inr (cid, c'), d2\<lparr>transactions := transactions d @ [inc, exp]\<rparr>))"
  using assms by (simp add: completeContract_def store_defs Let_def split: option.splits)

lemma completeContract_no_match:
  assumes "\<forall>c. contracts d (params_id r) = Some c
             \<longrightarrow> \<not> ((c_farmerId c = u_id (user r) \<or> c_buyerId c = u_id (user r))
                      \<and> c_status c \<in> {''accepted'', ''in_progress''})"
  shows "completeContract fault clock r d =
           (Inl (if fault ContractFindFirst then Forwarded else Failure 404 ''NOT_FOUND''), d)"
  using assms by (auto simp add: completeContract_def store_defs Let_def split: option.splits)

lemma rejectContract_found:
  assumes "contracts d (params_id r) = Some c"
    and "c_farmerId c = u_id (user r) \<or> c_buyerId c = u_id (user r)"
    and "c_status c \<in> {''requested'', ''accepted''}"
  shows "rejectContract fault r d =
    (let cid = params_id r;
         c' = c\<lparr>c_status := ''cancelled'',
                c_terms := with_note ''Rejection reason: '' (reason (body r)) (c_terms c)\<rparr>;
         d1 = d\<lparr>contracts := (contracts d)(cid \<mapsto> c')\<rparr>
     in if fault ContractFindFirst \<or> fault ContractUpdate then (Inl Forwarded, d)
        else if c_status c = ''accepted''
        then (case listings d (c_listingId c) of
                None \<Rightarrow> (Inl Forwarded, d1)
              | Some l \<Rightarrow>
                  if fault ListingUpdate then (Inl Forwarded, d1)
                  else (Inr (),
                        d1\<lparr>listings := (listings d)(c_listingId c \<mapsto> l\<lparr>l_status := ''active''\<rparr>)\<rparr>))
        else (Inr (), d1))"
  using assms by (auto simp add: rejectContract_def store_defs Let_def split: option.splits)

lemma rejectContract_no_match:
  assumes "\<forall>c. contracts d (params_id r) = Some c
             \<longrightarrow> \<not> ((c_farmerId c = u_id (user r) \<or> c_buyerId c = u_id (user r))
                      \<and> c_status c \<in> {''requested'', ''accepted''})"
  shows "rejectContract fault r d =
           (Inl (if fault ContractFindFirst then Forwarded else Failure 404 ''NOT_FOUND''), d)"
  using assms by (auto simp add: rejectContract_def store_defs Let_def split: option.splits)

lemma cancelContract_found:
  assumes "contracts d (params_id r) = Some c"
    and "c_farmerId c = u_id (user r) \<or> c_buyerId c = u_id (user r)"
    and "c_status c \<noteq> ''completed''"
  shows "cancelContract fault r d =
    (let cid = params_id r;
         c' = c\<lparr>c_status := ''cancelled'',
                c_terms := with_note ''Cancellation reason: '' (reason (body r)) (c_terms c)\<rparr>;
         d1 = d\<lparr>contracts := (contracts d)(cid \<mapsto> c')\<rparr>
     in if fault ContractFindFirst \<or> fault ContractUpdate then (Inl Forwarded, d)
        else if fault ListingFindUnique then (Inl Forwarded, d1)
        else case listings d (c_listingId c) of
               None \<Rightarrow> (Inr (), d1)
             | Some l \<Rightarrow>
                 if l_status l = ''contracted''
                 then if fault ListingUpdate then (Inl Forwarded, d1)
                      else (Inr (),
                            d1\<lparr>listings := (listings d)(c_listingId c \<mapsto> l\<lparr>l_status := ''active''\<rparr>)\<rparr>)
                 else (Inr (), d1))"
  using assms by (simp add: cancelContract_def store_defs Let_def split: option.splits)

lemma cancelContract_no_match:
  assumes "\<forall>c. contracts d (params_id r) = Some c
             \<longrightarrow> \<not> ((c_farmerId c = u_id (user r) \<or> c_buyerId c = u_id (user r))
                      \<and> c_status c \<noteq> ''completed'')"
  shows "cancelContract fault r d =
           (Inl (if fault ContractFindFirst then Forwarded else Failure 404 ''NOT_FOUND''), d)"
  using assms by (auto simp add: cancelContract_def store_defs Let_def split: option.splits)

lemma requestContract_found:
  assumes "listings d (params_id r) = Some l" and "u_role (user r) = ''buyer''"
  shows "requestContract fault newId r d =
    (let row = \<lparr> c_listingId = params_id r, c_farmerId = l_farmerId l,
                 c_buyerId = u_id (user r), c_cropType = l_cropType l,
                 c_quantity = l_quantity l, c_agreedPrice = l_expectedPrice l,
                 c_totalAmount = js_times (l_quantity l) (l_expectedPrice l),
                 c_status = ''requested'',
                 c_terms = js_or (terms (body r)) (message (body r)),
                 c_completedAt = None \<rparr>
     in if fault ListingFindUnique then (Inl Forwarded, d)
        else if l_status l \<noteq> ''active'' then (Inl (Failure 400 ''LISTING_UNAVAILABLE''), d)
        else if l_farmerId l = u_id (user r) then (Inl (Failure 400 ''INVALID_REQUEST''), d)
        else if fault ContractCreate \<or> contracts d newId \<noteq> None then (Inl Forwarded, d)
        else (Inr (newId, row), d\<lparr>contracts := (contracts d)(newId \<mapsto> row)\<rparr>))"
  using assms by (simp add: requestContract_def store_defs Let_def split: option.splits)


subsection \<open>Completing a contract\<close>

text \<open>
  Claim C1. For a contract in status \<^verbatim>\<open>accepted\<close> or \<^verbatim>\<open>in_progress\<close> and a caller
  who is its farmer or its buyer, a successful \<^verbatim>\<open>completeContract\<close> leaves the contract
  \<^verbatim>\<open>completed\<close> with \<^verbatim>\<open>completedAt\<close> set to the instant read for the update, leaves
  its listing \<^verbatim>\<open>completed\<close>, and adds to the ledger exactly two rows: an income of
  \<^verbatim>\<open>totalAmount\<close> for the farmer and an expense of the same amount for the buyer, both
  with the contract's id as \<^verbatim>\<open>referenceId\<close>.
\<close>

theorem completeContract_effects:
  assumes found: "contracts d (params_id r) = Some c"
    and status: "c_status c \<in> {''accepted'', ''in_progress''}"
    and party: "c_farmerId c = u_id (user r) \<or> c_buyerId c = u_id (user r)"
    and ok: "completeContract fault clock r d = (Inr a, d')"
  shows "(\<exists>c'. contracts d' (params_id r) = Some c' \<and> c_status c' = ''completed''
              \<and> c_completedAt c' = Some (clock ContractUpdate))
       \<and> (\<exists>l'. listings d' (c_listingId c) = Some l' \<and> l_status l' = ''completed'')
       \<and> (\<exists>inc exp. transactions d' = transactions d @ [inc, exp]
              \<and> t_type inc = ''income'' \<and> t_amount inc = c_totalAmount c
              \<and> t_userId inc = c_farmerId c \<and> t_referenceId inc = Some (params_id r)
              \<and> t_type exp = ''expense'' \<and> t_amount exp = c_totalAmount c
              \<and> t_userId exp = c_buyerId c \<and> t_referenceId exp = Some (params_id r))"
proof -
  from ok obtain l where l: "listings d (c_listingId c) = Some l"
    and nf: "\<not> fault ContractFindFirst" "\<not> fault ContractUpdate" "\<not> fault ListingUpdate"
            "\<not> fault IncomeCreate" "\<not> fault ExpenseCreate"
    unfolding completeContract_found [OF found party status]
    by (auto simp add: Let_def split: if_splits option.splits)
  from ok have d': "d' = d\<lparr>contracts := (contracts d)(params_id r \<mapsto>
                 c\<lparr>c_status := ''completed'', c_completedAt := Some (clock ContractUpdate),
                   c_terms := with_note ''Delivery proof: '' (deliveryProof (body r)) (c_terms c)\<rparr>),
             listings := (listings d)(c_listingId c \<mapsto> l\<lparr>l_status := ''completed''\<rparr>),
             transactions := transactions d @
               [\<lparr> t_userId = c_farmerId c, t_type = ''income'', t_category = ''sale'',
                  t_amount = c_totalAmount c,
                  t_description = ''Sale of '' @ c_cropType c @ '' - Contract '' @ params_id r,
                  t_referenceId = Some (params_id r), t_referenceType = Some ''contract'',
                  t_transactionDate = clock IncomeCreate \<rparr>,
                \<lparr> t_userId = c_buyerId c, t_type = ''expense'', t_category = ''purchase'',
                  t_amount = c_totalAmount c,
                  t_description = ''Purchase of '' @ c_cropType c @ '' - Contract '' @ params_id r,
                  t_referenceId = Some (params_id r), t_referenceType = Some ''contract'',
                  t_transactionDate = clock ExpenseCreate \<rparr>]\<rparr>"
    unfolding completeContract_found [OF found party status]
    using l nf by (simp add: Let_def)
  show ?thesis
    unfolding d' by simp
qed

theorem completeContract_effects_witness:
  "c_status accepted_c1 \<in> {''accepted'', ''in_progress''}
   \<and> (\<exists>a d'. completeContract no_fault (\<lambda>_. 7) (plain_req ''c1'' buyer1) market1 = (Inr a, d')
        \<and> map_option c_status (contracts d' ''c1'') = Some ''completed''
        \<and> map_option c_completedAt (contracts d' ''c1'') = Some (Some 7)
        \<and> map_option l_status (listings d' ''L1'') = Some ''completed''
        \<and> map (\<lambda>t. (t_type t, t_userId t, t_amount t, t_referenceId t)) (transactions d')
             = [(''income'', ''farmer1'', Finite False 2000, Some ''c1''),
                (''expense'', ''buyer1'', Finite False 2000, Some ''c1'')])"
proof -
  let ?r = "plain_req ''c1'' buyer1"
  have found: "contracts market1 (params_id ?r) = Some accepted_c1"
    by (simp add: market1_c1 plain_req_def)
  have status: "c_status accepted_c1 \<in> {''accepted'', ''in_progress''}"
    by (simp add: accepted_c1_def)
  have party: "c_farmerId accepted_c1 = u_id (user ?r) \<or> c_buyerId accepted_c1 = u_id (user ?r)"
    by (simp add: row_simps)
  have l: "listings market1 (c_listingId accepted_c1) = Some (wheat\<lparr>l_status := ''contracted''\<rparr>)"
    by (simp add: market1_L1 row_simps)
  obtain a d' where run: "completeContract no_fault (\<lambda>_. 7) ?r market1 = (Inr a, d')"
    unfolding completeContract_found [OF found party status]
    by (simp add: Let_def no_fault_def l)
  have tx: "transactions market1 = []"
    by (simp add: market1_def)
  from completeContract_effects [OF found status party run] status run
  show ?thesis
    by (auto simp add: tx row_simps)
qed

text \<open>
  Claim C4. A further \<^verbatim>\<open>completeContract\<close> on a contract that is already
  \<^verbatim>\<open>completed\<close> fails, since the status filter of the lookup no longer matches, and
  leaves the store, the ledger included, as it was.
\<close>

theorem completeContract_again_fails:
  assumes "contracts d (params_id r) = Some c" and "c_status c = ''completed''"
  shows "completeContract fault clock r d =
           (Inl (if fault ContractFindFirst then Forwarded else Failure 404 ''NOT_FOUND''), d)"
  using assms by (intro completeContract_no_match) simp

theorem completeContract_again_fails_witness:
  "completeContract no_fault (\<lambda>_. 8) (plain_req ''c1'' buyer1)
     (market1\<lparr>contracts := [''c1'' \<mapsto> accepted_c1\<lparr>c_status := ''completed''\<rparr>]\<rparr>)
   = (Inl (Failure 404 ''NOT_FOUND''),
      market1\<lparr>contracts := [''c1'' \<mapsto> accepted_c1\<lparr>c_status := ''completed''\<rparr>]\<rparr>)"
  using completeContract_again_fails [of
      "market1\<lparr>contracts := [''c1'' \<mapsto> accepted_c1\<lparr>c_status := ''completed''\<rparr>]\<rparr>"
      "plain_req ''c1'' buyer1" "accepted_c1\<lparr>c_status := ''completed''\<rparr>" no_fault "\<lambda>_. 8"]
  by (simp add: plain_req_def no_fault_def)

text \<open>
  In support of the same claim: no handler touches the row of a completed contract, so
  it stays completed, and no handler adds a ledger row that refers to it.
\<close>

lemma completed_contract_is_final:
  assumes "contracts d k = Some c" and "c_status c = ''completed''"
  shows "contracts (snd (requestContract fault newId r d)) k = Some c"
    and "contracts (snd (acceptContract fault r d)) k = Some c"
    and "contracts (snd (rejectContract fault r d)) k = Some c"
    and "contracts (snd (completeContract fault clock r d)) k = Some c"
    and "contracts (snd (cancelContract fault r d)) k = Some c"
proof -
  show "contracts (snd (requestContract fault newId r d)) k = Some c"
    using assms
    by (auto simp add: requestContract_def store_defs Let_def split: option.splits)
  show "contracts (snd (acceptContract fault r d)) k = Some c"
    using assms
    by (auto simp add: acceptContract_def store_defs Let_def split: option.splits)
  show "contracts (snd (rejectContract fault r d)) k = Some c"
    using assms
    by (auto simp add: rejectContract_def store_defs Let_def split: option.splits)
  show "contracts (snd (completeContract fault clock r d)) k = Some c"
    using assms
    by (auto simp add: completeContract_def store_defs Let_def split: option.splits)
  show "contracts (snd (cancelContract fault r d)) k = Some c"
    using assms
    by (auto simp add: cancelContract_def store_defs Let_def split: option.splits)
qed

lemma completeContract_again_fails_aux:
  assumes "contracts d (params_id r) = Some c" and "c_status c = ''completed''"
  shows "snd (completeContract fault clock r d) = d"
  using assms by (subst completeContract_no_match) simp_all

lemma ledger_of_completed_contract:
  assumes "contracts d k = Some c" and "c_status c = ''completed''"
  shows "transactions (snd (requestContract fault newId r d)) = transactions d"
    and "transactions (snd (acceptContract fault r d)) = transactions d"
    and "transactions (snd (rejectContract fault r d)) = transactions d"
    and "filter (\<lambda>t. t_referenceId t = Some k) (transactions (snd (completeContract fault clock r d)))
           = filter (\<lambda>t. t_referenceId t = Some k) (transactions d)"
    and "transactions (snd (cancelContract fault r d)) = transactions d"
proof -
  show "transactions (snd (requestContract fault newId r d)) = transactions d"
    by (auto simp add: requestContract_def store_defs Let_def split: option.splits)
  show "transactions (snd (acceptContract fault r d)) = transactions d"
    by (auto simp add: acceptContract_def store_defs Let_def split: option.splits)
  show "transactions (snd (rejectContract fault r d)) = transactions d"
    by (auto simp add: rejectContract_def store_defs Let_def split: option.splits)
  show "transactions (snd (cancelContract fault r d)) = transactions d"
    by (auto simp add: cancelContract_def store_defs Let_def split: option.splits)
  show "filter (\<lambda>t. t_referenceId t = Some k) (transactions (snd (completeContract fault clock r d)))
           = filter (\<lambda>t. t_referenceId t = Some k) (transactions d)"
  proof (cases "params_id r = k")
    case True
    with assms show ?thesis
      by (simp add: completeContract_again_fails_aux)
  next
    case False
    then show ?thesis
      by (auto simp add: completeContract_def store_defs Let_def split: option.splits)
  qed
qed

subsection \<open>Writes that fail in the middle of an operation\<close>

text \<open>
  Claim C2, as the code has it. The handlers issue their writes one after the other,
  outside any transaction. When the contract lookup or the first write (the contract
  update) of \<^verbatim>\<open>acceptContract\<close>, \<^verbatim>\<open>completeContract\<close> or \<^verbatim>\<open>cancelContract\<close>
  rejects, the request fails and the store is as it was before.
\<close>

theorem first_write_fails:
  assumes "fault ContractFindFirst \<or> fault ContractUpdate"
  shows "(\<exists>e. acceptContract fault r d = (Inl e, d))
       \<and> (\<exists>e. completeContract fault clock r d = (Inl e, d))
       \<and> (\<exists>e. cancelContract fault r d = (Inl e, d))"
proof (intro conjI)
  show "\<exists>e. acceptContract fault r d = (Inl e, d)"
    using assms
    by (auto simp add: acceptContract_def attempt_def contract_findFirst_def Let_def
        split: option.splits)
  show "\<exists>e. completeContract fault clock r d = (Inl e, d)"
    using assms
    by (auto simp add: completeContract_def attempt_def contract_findFirst_def Let_def
        split: option.splits)
  show "\<exists>e. cancelContract fault r d = (Inl e, d)"
    using assms
    by (auto simp add: cancelContract_def attempt_def contract_findFirst_def Let_def
        split: option.splits)
qed

theorem first_write_fails_witness:
  "(\<exists>e. acceptContract (only ContractUpdate) (plain_req ''c1'' farmer1) market2 = (Inl e, market2))
   \<and> (\<exists>e. completeContract (only ContractUpdate) (\<lambda>_. 7) (plain_req ''c1'' farmer1) market2
          = (Inl e, market2))
   \<and> (\<exists>e. cancelContract (only ContractUpdate) (plain_req ''c1'' farmer1) market2
          = (Inl e, market2))"
proof -
  have "only ContractUpdate ContractFindFirst \<or> only ContractUpdate ContractUpdate"
    by (simp add: only_def)
  from first_write_fails [OF this] show ?thesis .
qed

text \<open>
  A later write that rejects leaves the earlier ones in place. When the listing update
  of \<^verbatim>\<open>acceptContract\<close> rejects, the request fails with the contract accepted and the
  listing still active; when the first ledger insert of \<^verbatim>\<open>completeContract\<close> rejects,
  the request fails with the contract completed and no ledger row.
\<close>

theorem later_write_fails_partial:
  "fst (acceptContract (only ListingUpdate) (plain_req ''c1'' farmer1) market2) = Inl Forwarded
   \<and> map_option c_status (contracts market2 ''c1'') = Some ''requested''
   \<and> map_option c_status
        (contracts (snd (acceptContract (only ListingUpdate) (plain_req ''c1'' farmer1) market2))
           ''c1'') = Some ''accepted''
   \<and> map_option l_status
        (listings (snd (acceptContract (only ListingUpdate) (plain_req ''c1'' farmer1) market2))
           ''L1'') = Some ''active''
   \<and> fst (completeContract (only IncomeCreate) (\<lambda>_. 7) (plain_req ''c1'' buyer1) market1) = Inl Forwarded
   \<and> map_option c_status
        (contracts (snd (completeContract (only IncomeCreate) (\<lambda>_. 7) (plain_req ''c1'' buyer1) market1))
           ''c1'') = Some ''completed''
   \<and> transactions (snd (completeContract (only IncomeCreate) (\<lambda>_. 7) (plain_req ''c1'' buyer1) market1))
       = []"
proof -
  let ?f = "plain_req ''c1'' farmer1" and ?b = "plain_req ''c1'' buyer1"
  have acc: "acceptContract (only ListingUpdate) ?f market2 =
      (Inl Forwarded, market2\<lparr>contracts := (contracts market2)(''c1'' \<mapsto>
          (requested_by ''buyer1'')\<lparr>c_status := ''accepted''\<rparr>)\<rparr>)"
    by (subst acceptContract_found [where c = "requested_by ''buyer1''"])
       (simp_all add: row_simps market2_c1 market2_L1 Let_def only_def)
  have com: "completeContract (only IncomeCreate) (\<lambda>_. 7) ?b market1 =
      (Inl Forwarded, market1\<lparr>contracts := (contracts market1)(''c1'' \<mapsto>
          accepted_c1\<lparr>c_status := ''completed'', c_completedAt := Some 7,
             c_terms := with_note ''Delivery proof: '' (deliveryProof (body ?b))
                          (c_terms accepted_c1)\<rparr>),
         listings := (listings market1)(''L1'' \<mapsto> wheat\<lparr>l_status := ''completed''\<rparr>)\<rparr>)"
    by (subst completeContract_found [where c = accepted_c1])
       (simp_all add: row_simps market1_c1 market1_L1 Let_def only_def)
  show ?thesis
    unfolding acc com
    by (simp add: market2_c1 market2_L1 requested_by_def wheat_def market1_def market2_def)
qed

subsection \<open>Accepting a contract\<close>

text \<open>
  Claim C3. The claim asks that a listing never has two contracts in status
  \<^verbatim>\<open>accepted\<close> or \<^verbatim>\<open>in_progress\<close>. The filter of \<^verbatim>\<open>acceptContract\<close> looks at the
  contract alone. Here two buyers request the same active listing, and the farmer
  accepts the first request and then the second: the second call succeeds on a listing
  that is already \<^verbatim>\<open>contracted\<close>, and both contracts end \<^verbatim>\<open>accepted\<close>.
\<close>

theorem two_accepted_contracts_on_one_listing:
  "\<exists>a1 d1 a2 a3 d3 a4 d4.
     requestContract no_fault ''c1'' (plain_req ''L1'' buyer1) market0 = (Inr a1, d1)
   \<and> requestContract no_fault ''c2'' (plain_req ''L1'' buyer2) d1 = (Inr a2, market2)
   \<and> acceptContract no_fault (plain_req ''c1'' farmer1) market2 = (Inr a3, d3)
   \<and> map_option l_status (listings d3 ''L1'') = Some ''contracted''
   \<and> acceptContract no_fault (plain_req ''c2'' farmer1) d3 = (Inr a4, d4)
   \<and> map_option c_status (contracts d4 ''c1'') = Some ''accepted''
   \<and> map_option c_status (contracts d4 ''c2'') = Some ''accepted''
   \<and> map_option c_listingId (contracts d4 ''c1'') = Some ''L1''
   \<and> map_option c_listingId (contracts d4 ''c2'') = Some ''L1''"
proof -
  let ?d1 = "market0\<lparr>contracts := (contracts market0)(''c1'' \<mapsto> requested_by ''buyer1'')\<rparr>"
  let ?d3 = "market2\<lparr>contracts := (contracts market2)(''c1'' \<mapsto>
                 (requested_by ''buyer1'')\<lparr>c_status := ''accepted''\<rparr>),
               listings := (listings market2)(''L1'' \<mapsto> wheat\<lparr>l_status := ''contracted''\<rparr>)\<rparr>"
  let ?d4 = "?d3\<lparr>contracts := (contracts ?d3)(''c2'' \<mapsto>
                 (requested_by ''buyer2'')\<lparr>c_status := ''accepted''\<rparr>),
               listings := (listings ?d3)(''L1'' \<mapsto> wheat\<lparr>l_status := ''contracted''\<rparr>)\<rparr>"
  have s1: "requestContract no_fault ''c1'' (plain_req ''L1'' buyer1) market0
      = (Inr (''c1'', requested_by ''buyer1''), ?d1)"
    by (subst requestContract_found [where l = wheat])
       (simp_all add: row_simps market0_L1 wheat_def Let_def no_fault_def js_or_def truthy_def
          round_double_2000,
        simp add: market0_def)
  have s2: "requestContract no_fault ''c2'' (plain_req ''L1'' buyer2) ?d1
      = (Inr (''c2'', requested_by ''buyer2''), market2)"
    by (subst requestContract_found [where l = wheat])
       (simp_all add: row_simps market0_L1 wheat_def Let_def no_fault_def js_or_def truthy_def
          round_double_2000,
        simp add: market0_def market2_def requested_by_def wheat_def)
  have s3: "acceptContract no_fault (plain_req ''c1'' farmer1) market2
      = (Inr (''c1'', (requested_by ''buyer1'')\<lparr>c_status := ''accepted''\<rparr>), ?d3)"
    by (subst acceptContract_found [where c = "requested_by ''buyer1''"])
       (simp_all add: row_simps market2_c1 market2_L1 Let_def no_fault_def)
  have s4: "acceptContract no_fault (plain_req ''c2'' farmer1) ?d3
      = (Inr (''c2'', (requested_by ''buyer2'')\<lparr>c_status := ''accepted''\<rparr>), ?d4)"
    by (subst acceptContract_found [where c = "requested_by ''buyer2''"])
       (simp_all add: row_simps market2_c2 market2_L1 Let_def no_fault_def)
  have obs: "map_option l_status (listings ?d3 ''L1'') = Some ''contracted''
   \<and> map_option c_status (contracts ?d4 ''c1'') = Some ''accepted''
   \<and> map_option c_status (contracts ?d4 ''c2'') = Some ''accepted''
   \<and> map_option c_listingId (contracts ?d4 ''c1'') = Some ''L1''
   \<and> map_option c_listingId (contracts ?d4 ''c2'') = Some ''L1''"
    by (simp add: requested_by_def)
  from s1 s2 s3 s4 obs show ?thesis by blast
qed




subsection \<open>Requesting a contract\<close>

text \<open>
  Claim C5, as the code has it. When a buyer requests a listing whose status is not
  \<^verbatim>\<open>active\<close>, the request fails with HTTP status 400 and the code
  \<^verbatim>\<open>LISTING_UNAVAILABLE\<close> (or with the exception of the listing lookup, when that
  rejects), and the store is unchanged: no contract is created.
\<close>

theorem requestContract_unavailable:
  assumes "u_role (user r) = ''buyer''" and "listings d (params_id r) = Some l"
    and "l_status l \<noteq> ''active''"
  shows "requestContract fault newId r d =
           (Inl (if fault ListingFindUnique then Forwarded
                 else Failure 400 ''LISTING_UNAVAILABLE''), d)"
  using assms(3) by (simp add: requestContract_found [OF assms(2,1)])

theorem requestContract_unavailable_witness:
  "requestContract no_fault ''c2'' (plain_req ''L1'' buyer2) market1 =
     (Inl (Failure 400 ''LISTING_UNAVAILABLE''), market1)"
proof -
  let ?r = "plain_req ''L1'' buyer2"
  have 1: "u_role (user ?r) = ''buyer''"
    by (simp add: plain_req_def buyer2_def)
  have 2: "listings market1 (params_id ?r) = Some (wheat\<lparr>l_status := ''contracted''\<rparr>)"
    by (simp add: plain_req_def market1_L1)
  have 3: "l_status (wheat\<lparr>l_status := ''contracted''\<rparr>) \<noteq> ''active''"
    by simp
  show ?thesis
    using requestContract_unavailable [OF 1 2 3, of no_fault "''c2''"]
    by (simp add: no_fault_def)
qed

text \<open>
  A buyer who requests the contracted listing of \<open>market1\<close> is not answered with
  status 409.
\<close>

theorem requestContract_not_conflict:
  "map_option l_status (listings market1 ''L1'') = Some ''contracted''
   \<and> u_role buyer2 = ''buyer''
   \<and> \<not> fails_with 409 (fst (requestContract no_fault ''c2'' (plain_req ''L1'' buyer2) market1))"
proof -
  let ?r = "plain_req ''L1'' buyer2"
  have 1: "u_role (user ?r) = ''buyer''"
    by (simp add: plain_req_def buyer2_def)
  have 2: "listings market1 (params_id ?r) = Some (wheat\<lparr>l_status := ''contracted''\<rparr>)"
    by (simp add: plain_req_def market1_L1)
  have "requestContract no_fault ''c2'' ?r market1 =
          (Inl (Failure 400 ''LISTING_UNAVAILABLE''), market1)"
    by (simp add: requestContract_found [OF 2 1] no_fault_def)
  then show ?thesis
    by (simp add: fails_with_def market1_L1 buyer2_def)
qed




text \<open>
  In support of the same claim: no handler changes the copied columns of a stored
  contract, whatever it does to the listings.
\<close>

lemma snapshot_fields_kept:
  assumes "contracts d k = Some c"
  shows "\<exists>c'. contracts (snd (requestContract fault newId r d)) k = Some c' \<and> same_snapshot c c'"
    and "\<exists>c'. contracts (snd (acceptContract fault r d)) k = Some c' \<and> same_snapshot c c'"
    and "\<exists>c'. contracts (snd (rejectContract fault r d)) k = Some c' \<and> same_snapshot c c'"
    and "\<exists>c'. contracts (snd (completeContract fault clock r d)) k = Some c' \<and> same_snapshot c c'"
    and "\<exists>c'. contracts (snd (cancelContract fault r d)) k = Some c' \<and> same_snapshot c c'"
proof -
  show "\<exists>c'. contracts (snd (requestContract fault newId r d)) k = Some c' \<and> same_snapshot c c'"
    using assms
    by (auto simp add: requestContract_def store_defs same_snapshot_def Let_def
        split: option.splits)
  show "\<exists>c'. contracts (snd (acceptContract fault r d)) k = Some c' \<and> same_snapshot c c'"
    using assms
    by (auto simp add: acceptContract_def store_defs same_snapshot_def Let_def
        split: option.splits)
  show "\<exists>c'. contracts (snd (rejectContract fault r d)) k = Some c' \<and> same_snapshot c c'"
    using assms
    by (auto simp add: rejectContract_def store_defs same_snapshot_def Let_def
        split: option.splits)
  show "\<exists>c'. contracts (snd (completeContract fault clock r d)) k = Some c' \<and> same_snapshot c c'"
    using assms
    by (auto simp add: completeContract_def store_defs same_snapshot_def Let_def
        split: option.splits)
  show "\<exists>c'. contracts (snd (cancelContract fault r d)) k = Some c' \<and> same_snapshot c c'"
    using assms
    by (auto simp add: cancelContract_def store_defs same_snapshot_def Let_def
        split: option.splits)
qed

text \<open>
  After \<^verbatim>\<open>createListing\<close> by an authenticated caller, and after every handler of the
  lifecycle, the listings still belong to farmers; so they do when the users table
  gains rows or changes columns other than \<^verbatim>\<open>role\<close>.
\<close>

lemma owners_are_farmers_empty:
  "listings d = Map.empty \<Longrightarrow> owners_are_farmers users d"
  by (simp add: owners_are_farmers_def)

lemma owners_are_farmers_createListing:
  assumes "owners_are_farmers users d" and "authenticate fault' users uid = Inr caller"
  shows "owners_are_farmers users (snd (createListing fault newId caller form d))"
proof -
  from assms(2) have "u_role caller = ''farmer''
      \<longrightarrow> map_option a_role (users (u_id caller)) = Some ''farmer''"
    by (auto simp add: authenticate_def attempt_def split: option.splits if_splits)
  with assms(1) show ?thesis
    by (auto simp add: createListing_def listing_create_def attempt_def owners_are_farmers_def
        Let_def split: option.splits if_splits)
qed

lemma owners_are_farmers_lifecycle:
  assumes "owners_are_farmers users d"
  shows "owners_are_farmers users (snd (requestContract fault newId r d))"
    and "owners_are_farmers users (snd (acceptContract fault r d))"
    and "owners_are_farmers users (snd (rejectContract fault r d))"
    and "owners_are_farmers users (snd (completeContract fault clock r d))"
    and "owners_are_farmers users (snd (cancelContract fault r d))"
proof -
  show "owners_are_farmers users (snd (requestContract fault newId r d))"
    using assms
    by (auto simp add: requestContract_def store_defs owners_are_farmers_def Let_def
        split: option.splits)
  show "owners_are_farmers users (snd (acceptContract fault r d))"
    using assms
    by (auto simp add: acceptContract_def store_defs owners_are_farmers_def Let_def
        split: option.splits if_splits)
  show "owners_are_farmers users (snd (rejectContract fault r d))"
    using assms
    by (auto simp add: rejectContract_def store_defs owners_are_farmers_def Let_def
        split: option.splits if_splits)
  show "owners_are_farmers users (snd (completeContract fault clock r d))"
    using assms
    by (auto simp add: completeContract_def store_defs owners_are_farmers_def Let_def
        split: option.splits if_splits)
  show "owners_are_farmers users (snd (cancelContract fault r d))"
    using assms
    by (auto simp add: cancelContract_def store_defs owners_are_farmers_def Let_def
        split: option.splits if_splits)
qed

lemma owners_are_farmers_users:
  assumes "owners_are_farmers users d"
    and "\<And>i a. users i = Some a \<Longrightarrow> map_option a_role (users' i) = Some (a_role a)"
  shows "owners_are_farmers users' d"
  using assms by (fastforce simp add: owners_are_farmers_def)

text \<open>
  Claim C7. \<^verbatim>\<open>requestContract\<close> fails with HTTP status 403 (\<^verbatim>\<open>FORBIDDEN\<close>) when the
  caller's role is not \<^verbatim>\<open>buyer\<close>, and when the caller is the farmer of the listing
  requested: \<^verbatim>\<open>req.user\<close> is what \<^verbatim>\<open>authenticate\<close> read from the users table, and the
  owner of a listing has the role \<^verbatim>\<open>farmer\<close> there, so the role check at line 315
  refuses the owner before the listing is looked up.
\<close>

theorem requestContract_forbidden:
  assumes inv: "owners_are_farmers users d"
    and auth: "authenticate fault' users uid = Inr (user r)"
    and caller: "u_role (user r) \<noteq> ''buyer''
                 \<or> (\<exists>l. listings d (params_id r) = Some l \<and> l_farmerId l = u_id (user r))"
  shows "requestContract fault newId r d = (Inl (Failure 403 ''FORBIDDEN''), d)"
proof -
  from auth obtain a where "users uid = Some a"
    and "user r = \<lparr> u_id = uid, u_role = a_role a \<rparr>"
    by (auto simp add: authenticate_def attempt_def split: option.splits if_splits)
  then have role: "map_option a_role (users (u_id (user r))) = Some (u_role (user r))"
    by simp
  have "u_role (user r) \<noteq> ''buyer''"
    using caller
  proof
    assume "u_role (user r) \<noteq> ''buyer''"
    then show ?thesis .
  next
    assume "\<exists>l. listings d (params_id r) = Some l \<and> l_farmerId l = u_id (user r)"
    then obtain l where l: "listings d (params_id r) = Some l"
      and own: "l_farmerId l = u_id (user r)"
      by blast
    from inv l have "map_option a_role (users (l_farmerId l)) = Some ''farmer''"
      unfolding owners_are_farmers_def by blast
    with role own have "u_role (user r) = ''farmer''"
      by auto
    then show ?thesis
      by simp
  qed
  then show ?thesis
    by (simp add: requestContract_def)
qed

theorem requestContract_forbidden_witness:
  "owners_are_farmers accounts0 market0
   \<and> authenticate no_fault accounts0 ''farmer1'' = Inr (user (plain_req ''L1'' farmer1))
   \<and> map_option l_farmerId (listings market0 (params_id (plain_req ''L1'' farmer1)))
       = Some (u_id (user (plain_req ''L1'' farmer1)))
   \<and> requestContract no_fault ''c1'' (plain_req ''L1'' farmer1) market0
       = (Inl (Failure 403 ''FORBIDDEN''), market0)"
proof -
  let ?r = "plain_req ''L1'' farmer1"
  have inv: "owners_are_farmers accounts0 market0"
    by (simp add: owners_are_farmers_def market0_def wheat_def accounts0_def)
  have auth: "authenticate no_fault accounts0 ''farmer1'' = Inr (user ?r)"
    by (simp add: authenticate_def attempt_def no_fault_def accounts0_def plain_req_def
        farmer1_def)
  have own: "listings market0 (params_id ?r) = Some wheat \<and> l_farmerId wheat = u_id (user ?r)"
    by (simp add: market0_L1 plain_req_def wheat_def farmer1_def)
  then have caller: "u_role (user ?r) \<noteq> ''buyer''
      \<or> (\<exists>l. listings market0 (params_id ?r) = Some l \<and> l_farmerId l = u_id (user ?r))"
    by blast
  from requestContract_forbidden [OF inv auth caller, of no_fault "''c1''"] inv auth own
  show ?thesis
    by simp
qed

subsection \<open>Rejecting a contract\<close>

text \<open>
  Claim C8. A successful \<^verbatim>\<open>rejectContract\<close> leaves the contract \<^verbatim>\<open>cancelled\<close>. When
  the contract was \<^verbatim>\<open>accepted\<close>, its listing is set back to \<^verbatim>\<open>active\<close> and no other
  listing changes; when it was \<^verbatim>\<open>requested\<close>, no listing changes at all.
\<close>

theorem rejectContract_listing:
  assumes found: "contracts d (params_id r) = Some c"
    and ok: "rejectContract fault r d = (Inr a, d')"
  shows "(\<exists>c'. contracts d' (params_id r) = Some c' \<and> c_status c' = ''cancelled'')
       \<and> (c_status c = ''accepted'' \<longrightarrow>
            (\<exists>l. listings d (c_listingId c) = Some l
               \<and> listings d' = (listings d)(c_listingId c \<mapsto> l\<lparr>l_status := ''active''\<rparr>)))
       \<and> (c_status c = ''requested'' \<longrightarrow> listings d' = listings d)"
proof -
  have match: "(c_farmerId c = u_id (user r) \<or> c_buyerId c = u_id (user r))
      \<and> c_status c \<in> {''requested'', ''accepted''}"
  proof (rule ccontr)
    assume "\<not> ?thesis"
    with found have "\<forall>c. contracts d (params_id r) = Some c
             \<longrightarrow> \<not> ((c_farmerId c = u_id (user r) \<or> c_buyerId c = u_id (user r))
                      \<and> c_status c \<in> {''requested'', ''accepted''})"
      by simp
    from rejectContract_no_match [OF this] ok show False
      by simp
  qed
  then have party: "c_farmerId c = u_id (user r) \<or> c_buyerId c = u_id (user r)"
    and status: "c_status c \<in> {''requested'', ''accepted''}"
    by simp_all
  from ok show ?thesis
    unfolding rejectContract_found [OF found party status]
    by (auto simp add: Let_def split: if_splits option.splits)
qed

theorem rejectContract_listing_witness:
  "(\<exists>a d'. rejectContract no_fault (plain_req ''c1'' buyer1) market1 = (Inr a, d')
       \<and> map_option c_status (contracts d' ''c1'') = Some ''cancelled''
       \<and> map_option l_status (listings market1 ''L1'') = Some ''contracted''
       \<and> map_option l_status (listings d' ''L1'') = Some ''active'')
   \<and> (\<exists>a d'. rejectContract no_fault (plain_req ''c1'' buyer1) market2 = (Inr a, d')
       \<and> map_option c_status (contracts d' ''c1'') = Some ''cancelled''
       \<and> listings d' = listings market2)"
proof -
  let ?r = "plain_req ''c1'' buyer1"
  have f1: "contracts market1 (params_id ?r) = Some accepted_c1"
    by (simp add: market1_c1 plain_req_def)
  have f2: "contracts market2 (params_id ?r) = Some (requested_by ''buyer1'')"
    by (simp add: market2_c1 plain_req_def)
  have "\<exists>a1 d1. rejectContract no_fault ?r market1 = (Inr a1, d1)"
    by (subst rejectContract_found [OF f1])
       (simp_all add: row_simps Let_def no_fault_def market1_L1)
  then obtain a1 d1 where run1: "rejectContract no_fault ?r market1 = (Inr a1, d1)"
    by blast
  have "\<exists>a2 d2. rejectContract no_fault ?r market2 = (Inr a2, d2)"
    by (subst rejectContract_found [OF f2]) (simp_all add: row_simps Let_def no_fault_def)
  then obtain a2 d2 where run2: "rejectContract no_fault ?r market2 = (Inr a2, d2)"
    by blast
  from rejectContract_listing [OF f1 run1] rejectContract_listing [OF f2 run2] run1 run2
  show ?thesis
    by (auto simp add: row_simps market1_L1)
qed

subsection \<open>The terms of a contract\<close>

lemma reject_market1:
  assumes "params_id r = ''c1''" and "u_id (user r) = ''buyer1''"
  shows "rejectContract no_fault r market1 =
     (Inr (), market1\<lparr>contracts := (contracts market1)(''c1'' \<mapsto>
          accepted_c1\<lparr>c_status := ''cancelled'',
             c_terms := with_note ''Rejection reason: '' (reason (body r)) (c_terms accepted_c1)\<rparr>),
        listings := (listings market1)(''L1'' \<mapsto> wheat\<lparr>l_status := ''active''\<rparr>)\<rparr>)"
  by (subst rejectContract_found [where c = accepted_c1])
     (simp_all add: assms market1_c1 market1_L1 accepted_c1_def requested_by_def Let_def
        no_fault_def)

lemma cancel_market1:
  assumes "params_id r = ''c1''" and "u_id (user r) = ''buyer1''"
  shows "cancelContract no_fault r market1 =
     (Inr (), market1\<lparr>contracts := (contracts market1)(''c1'' \<mapsto>
          accepted_c1\<lparr>c_status := ''cancelled'',
             c_terms := with_note ''Cancellation reason: '' (reason (body r))
                          (c_terms accepted_c1)\<rparr>),
        listings := (listings market1)(''L1'' \<mapsto> wheat\<lparr>l_status := ''active''\<rparr>)\<rparr>)"
  by (subst cancelContract_found [where c = accepted_c1])
     (simp_all add: assms market1_c1 market1_L1 accepted_c1_def requested_by_def Let_def
        no_fault_def wheat_def)

lemma complete_market1:
  assumes "params_id r = ''c1''" and "u_id (user r) = ''buyer1''"
  shows "\<exists>a d'. completeContract no_fault clock r market1 = (Inr a, d')"
  by (subst completeContract_found [where c = accepted_c1])
     (simp_all add: assms market1_c1 market1_L1 accepted_c1_def requested_by_def Let_def
        no_fault_def)

text \<open>
  Claim C10, as the code has it. After a successful \<^verbatim>\<open>rejectContract\<close>,
  \<^verbatim>\<open>cancelContract\<close> or \<^verbatim>\<open>completeContract\<close>, the terms of the contract are unchanged
  when the \<^verbatim>\<open>reason\<close> (for complete, the \<^verbatim>\<open>deliveryProof\<close>) is absent or the empty
  string; when it is a non-empty string, the new terms are the old text (empty when
  there was none), a line break, the label of the operation and the note.
\<close>

theorem terms_after_note:
  assumes found: "contracts d (params_id r) = Some c"
  shows "(rejectContract fault r d = (Inr a, d') \<longrightarrow>
            map_option c_terms (contracts d' (params_id r)) = Some
              (case reason (body r) of
                 None \<Rightarrow> c_terms c
               | Some n \<Rightarrow> if n = [] then c_terms c
                           else Some ((case c_terms c of None \<Rightarrow> [] | Some t \<Rightarrow> t)
                                       @ CHR 0x0A # ''Rejection reason: '' @ n)))
       \<and> (cancelContract fault r d = (Inr a, d') \<longrightarrow>
            map_option c_terms (contracts d' (params_id r)) = Some
              (case reason (body r) of
                 None \<Rightarrow> c_terms c
               | Some n \<Rightarrow> if n = [] then c_terms c
                           else Some ((case c_terms c of None \<Rightarrow> [] | Some t \<Rightarrow> t)
                                       @ CHR 0x0A # ''Cancellation reason: '' @ n)))
       \<and> (completeContract fault clock r d = (Inr b, d') \<longrightarrow>
            map_option c_terms (contracts d' (params_id r)) = Some
              (case deliveryProof (body r) of
                 None \<Rightarrow> c_terms c
               | Some n \<Rightarrow> if n = [] then c_terms c
                           else Some ((case c_terms c of None \<Rightarrow> [] | Some t \<Rightarrow> t)
                                       @ CHR 0x0A # ''Delivery proof: '' @ n)))"
proof -
  have terms: "with_note label n old =
      (case n of None \<Rightarrow> old
       | Some s \<Rightarrow> if s = [] then old
                   else Some ((case old of None \<Rightarrow> [] | Some t \<Rightarrow> t) @ CHR 0x0A # label @ s))"
    for label n old
    by (simp add: with_note_def truthy_def or_else_def split: option.splits)
  have rej: "map_option c_terms (contracts d' (params_id r)) =
        Some (with_note ''Rejection reason: '' (reason (body r)) (c_terms c))"
    if "rejectContract fault r d = (Inr a, d')"
    using that found
    by (auto simp add: rejectContract_def store_defs Let_def split: if_splits option.splits)
  have can: "map_option c_terms (contracts d' (params_id r)) =
        Some (with_note ''Cancellation reason: '' (reason (body r)) (c_terms c))"
    if "cancelContract fault r d = (Inr a, d')"
    using that found
    by (auto simp add: cancelContract_def store_defs Let_def split: if_splits option.splits)
  have com: "map_option c_terms (contracts d' (params_id r)) =
        Some (with_note ''Delivery proof: '' (deliveryProof (body r)) (c_terms c))"
    if "completeContract fault clock r d = (Inr b, d')"
    using that found
    by (auto simp add: completeContract_def store_defs Let_def split: if_splits option.splits)
  from rej can com show ?thesis
    unfolding terms by blast
qed

theorem terms_after_note_witness:
  "(\<exists>a d'. rejectContract no_fault (note_req ''c1'' buyer1 ''late'') market1 = (Inr a, d')
       \<and> map_option c_terms (contracts d' ''c1'')
           = Some (Some (''pay on delivery'' @ CHR 0x0A # ''Rejection reason: late'')))
   \<and> (\<exists>a d'. cancelContract no_fault (note_req ''c1'' buyer1 ''late'') market1 = (Inr a, d')
       \<and> map_option c_terms (contracts d' ''c1'')
           = Some (Some (''pay on delivery'' @ CHR 0x0A # ''Cancellation reason: late'')))
   \<and> (\<exists>a d'. completeContract no_fault (\<lambda>_. 7) (note_req ''c1'' buyer1 ''late'') market1 = (Inr a, d')
       \<and> map_option c_terms (contracts d' ''c1'')
           = Some (Some (''pay on delivery'' @ CHR 0x0A # ''Delivery proof: late'')))
   \<and> (\<exists>a d'. rejectContract no_fault (plain_req ''c1'' buyer1) market1 = (Inr a, d')
       \<and> map_option c_terms (contracts d' ''c1'') = Some (Some ''pay on delivery''))
   \<and> (\<exists>a d'. cancelContract no_fault (plain_req ''c1'' buyer1) market1 = (Inr a, d')
       \<and> map_option c_terms (contracts d' ''c1'') = Some (Some ''pay on delivery''))
   \<and> (\<exists>a d'. completeContract no_fault (\<lambda>_. 7) (plain_req ''c1'' buyer1) market1 = (Inr a, d')
       \<and> map_option c_terms (contracts d' ''c1'') = Some (Some ''pay on delivery''))"
proof -
  let ?n = "note_req ''c1'' buyer1 ''late''" and ?p = "plain_req ''c1'' buyer1"
  have n: "params_id ?n = ''c1''" "u_id (user ?n) = ''buyer1''"
    and p: "params_id ?p = ''c1''" "u_id (user ?p) = ''buyer1''"
    by (simp_all add: note_req_def plain_req_def buyer1_def)
  have fn: "contracts market1 (params_id ?n) = Some accepted_c1"
    and fp: "contracts market1 (params_id ?p) = Some accepted_c1"
    by (simp_all add: n p market1_c1)
  obtain a1 d1 where r1: "rejectContract no_fault ?n market1 = (Inr a1, d1)"
    using reject_market1 [OF n] by simp
  obtain a2 d2 where r2: "cancelContract no_fault ?n market1 = (Inr a2, d2)"
    using cancel_market1 [OF n] by simp
  obtain a3 d3 where r3: "completeContract no_fault (\<lambda>_. 7) ?n market1 = (Inr a3, d3)"
    using complete_market1 [OF n] by blast
  obtain a4 d4 where r4: "rejectContract no_fault ?p market1 = (Inr a4, d4)"
    using reject_market1 [OF p] by simp
  obtain a5 d5 where r5: "cancelContract no_fault ?p market1 = (Inr a5, d5)"
    using cancel_market1 [OF p] by simp
  obtain a6 d6 where r6: "completeContract no_fault (\<lambda>_. 7) ?p market1 = (Inr a6, d6)"
    using complete_market1 [OF p] by blast
  have t: "c_terms accepted_c1 = Some ''pay on delivery''"
    by (simp add: accepted_c1_def)
  have bn: "reason (body ?n) = Some ''late''" "deliveryProof (body ?n) = Some ''late''"
    and bp: "reason (body ?p) = None" "deliveryProof (body ?p) = None"
    by (simp_all add: note_req_def plain_req_def no_body_def)
  from terms_after_note [OF fn, of no_fault a1 d1] r1
  have c1: "map_option c_terms (contracts d1 ''c1'')
           = Some (Some (''pay on delivery'' @ CHR 0x0A # ''Rejection reason: late''))"
    by (simp add: n t bn)
  from terms_after_note [OF fn, of no_fault a2 d2] r2
  have c2: "map_option c_terms (contracts d2 ''c1'')
           = Some (Some (''pay on delivery'' @ CHR 0x0A # ''Cancellation reason: late''))"
    by (simp add: n t bn)
  from terms_after_note [OF fn, of no_fault _ d3 "\<lambda>_. 7" a3] r3
  have c3: "map_option c_terms (contracts d3 ''c1'')
           = Some (Some (''pay on delivery'' @ CHR 0x0A # ''Delivery proof: late''))"
    by (simp add: n t bn)
  from terms_after_note [OF fp, of no_fault a4 d4] r4
  have c4: "map_option c_terms (contracts d4 ''c1'') = Some (Some ''pay on delivery'')"
    by (simp add: p t bp)
  from terms_after_note [OF fp, of no_fault a5 d5] r5
  have c5: "map_option c_terms (contracts d5 ''c1'') = Some (Some ''pay on delivery'')"
    by (simp add: p t bp)
  from terms_after_note [OF fp, of no_fault _ d6 "\<lambda>_. 7" a6] r6
  have c6: "map_option c_terms (contracts d6 ''c1'') = Some (Some ''pay on delivery'')"
    by (simp add: p t bp)
  show ?thesis
    unfolding r1 r2 r3 r4 r5 r6 using c1 c2 c3 c4 c5 c6 by simp
qed

text \<open>
  A \<^verbatim>\<open>reason\<close> that is present in the body but empty adds no note: the rejection
  succeeds and the terms are the old ones.
\<close>

theorem empty_reason_adds_no_note:
  "reason (body (note_req ''c1'' buyer1 [])) = Some []
   \<and> fst (rejectContract no_fault (note_req ''c1'' buyer1 []) market1) = Inr ()
   \<and> map_option c_terms (contracts market1 ''c1'') = Some (Some ''pay on delivery'')
   \<and> map_option c_terms
        (contracts (snd (rejectContract no_fault (note_req ''c1'' buyer1 []) market1)) ''c1'')
       = Some (Some ''pay on delivery'')
   \<and> map_option c_terms
        (contracts (snd (rejectContract no_fault (note_req ''c1'' buyer1 []) market1)) ''c1'')
       \<noteq> Some (Some (''pay on delivery'' @ CHR 0x0A # ''Rejection reason: ''))"
proof -
  let ?r = "note_req ''c1'' buyer1 []"
  have r: "params_id ?r = ''c1''" "u_id (user ?r) = ''buyer1''"
    by (simp_all add: note_req_def buyer1_def)
  have b: "reason (body ?r) = Some []"
    by (simp add: note_req_def no_body_def)
  show ?thesis
    unfolding reject_market1 [OF r] b
    by (simp add: market1_c1 with_note_def truthy_def accepted_c1_def)
qed

end
